theory Spec2Isabelle
  imports Main "HOL-Library.Sublist"
begin

section \<open>Values held by the program\<close>

text \<open>
  The program \<^verbatim>\<open>crypt.py\<close> holds what \<^verbatim>\<open>response.json()\<close> returned: a Python value
  built from \<^verbatim>\<open>None\<close>, booleans, integers, floats, strings, lists and dictionaries with
  string keys. Python integers are unbounded (\<open>int\<close>). A dictionary keeps its keys in
  insertion order, so it is an association list. Floats are a type parameter \<open>'f\<close>: the
  program never computes with them, it only hands them to the library for printing.
  Characters are code points below 256.
\<close>

datatype 'f json =
    JNull
  | JBool bool
  | JInt int
  | JFloat 'f
  | JStr string
  | JArr "'f json list"
  | JObj "(string \<times> 'f json) list"

text \<open>
  Exceptions, all of them instances of Python's \<^verbatim>\<open>Exception\<close>. \<open>Exception\<close> is the plain
  exception raised by \<^verbatim>\<open>get_market_data\<close>; \<open>KeyError\<close> carries the missing key;
  \<open>TypeError\<close> and \<open>AttributeError\<close> carry the name of the offending type;
  \<open>RequestException\<close>, \<open>JSONDecodeError\<close>, \<open>OSError\<close> and \<open>PlotError\<close> are raised by the
  HTTP library, the JSON decoder, the file system and the plotting library, and carry
  their message; \<open>RecursionError\<close> is what the decoder raises when it runs out of depth.
\<close>

datatype exn =
    Exception string
  | KeyError string
  | TypeError string
  | AttributeError string string
  | RequestException string
  | JSONDecodeError string
  | RecursionError
  | OSError string
  | PlotError string

definition squote :: "string \<Rightarrow> string" where
  "squote s = CHR 0x27 # s @ [CHR 0x27]"

text \<open>\<^verbatim>\<open>str(e)\<close>, as the handler of \<^verbatim>\<open>run\<close> prints it.\<close>

fun exn_str :: "exn \<Rightarrow> string" where
  "exn_str (Exception m) = m"
| "exn_str (KeyError k) = squote k"
| "exn_str (TypeError t) = squote t @ '' object does not support this operation''"
| "exn_str (AttributeError t a) = squote t @ '' object has no attribute '' @ squote a"
| "exn_str (RequestException m) = m"
| "exn_str (JSONDecodeError m) = m"
| "exn_str RecursionError = ''maximum recursion depth exceeded''"
| "exn_str (OSError m) = m"
| "exn_str (PlotError m) = m"

fun type_name :: "'f json \<Rightarrow> string" where
  "type_name JNull = ''NoneType''"
| "type_name (JBool _) = ''bool''"
| "type_name (JInt _) = ''int''"
| "type_name (JFloat _) = ''float''"
| "type_name (JStr _) = ''str''"
| "type_name (JArr _) = ''list''"
| "type_name (JObj _) = ''dict''"

text \<open>\<^verbatim>\<open>for x in v\<close>: a list yields its items, a dictionary its keys, a string its
  characters; anything else is not iterable.\<close>

fun py_iter :: "'f json \<Rightarrow> exn + 'f json list" where
  "py_iter (JArr xs) = Inr xs"
| "py_iter (JObj kvs) = Inr (map (\<lambda>kv. JStr (fst kv)) kvs)"
| "py_iter (JStr s) = Inr (map (\<lambda>c. JStr [c]) s)"
| "py_iter v = Inl (TypeError (type_name v))"

text \<open>\<^verbatim>\<open>v[key]\<close> with a string key: only a dictionary can be indexed by a string, and a
  missing key raises \<^verbatim>\<open>KeyError\<close>.\<close>

fun getitem :: "'f json \<Rightarrow> string \<Rightarrow> exn + 'f json" where
  "getitem (JObj kvs) key =
     (case map_of kvs key of None \<Rightarrow> Inl (KeyError key) | Some v \<Rightarrow> Inr v)"
| "getitem v key = Inl (TypeError (type_name v))"

text \<open>\<^verbatim>\<open>v.get(key, default)\<close>: only a dictionary has the method.\<close>

fun get_default :: "'f json \<Rightarrow> string \<Rightarrow> 'f json \<Rightarrow> exn + 'f json" where
  "get_default (JObj kvs) key d =
     (case map_of kvs key of None \<Rightarrow> Inr d | Some v \<Rightarrow> Inr v)"
| "get_default v key d = Inl (AttributeError (type_name v) ''get'')"

text \<open>Running a fallible function over a list, stopping at the first exception, as a
  list comprehension does.\<close>

fun map_exn :: "('a \<Rightarrow> exn + 'b) \<Rightarrow> 'a list \<Rightarrow> exn + 'b list" where
  "map_exn f [] = Inr []"
| "map_exn f (x # xs) =
     (case f x of
        Inl e \<Rightarrow> Inl e
      | Inr y \<Rightarrow> (case map_exn f xs of Inl e \<Rightarrow> Inl e | Inr ys \<Rightarrow> Inr (y # ys)))"

section \<open>Decimal integers\<close>

definition digit_char :: "nat \<Rightarrow> char" where
  "digit_char d = char_of (48 + d)"

function digits :: "nat \<Rightarrow> string" where
  "digits n = (if n < 10 then [digit_char n] else digits (n div 10) @ [digit_char (n mod 10)])"
  by pat_completeness auto
termination
  by (relation "measure (\<lambda>n. n)") auto

declare digits.simps [simp del]

text \<open>\<^verbatim>\<open>str(i)\<close> for an integer.\<close>

definition str_int :: "int \<Rightarrow> string" where
  "str_int i = (if i < 0 then CHR ''-'' # digits (nat (- i)) else digits (nat i))"

section \<open>The JSON encoder, as \<^verbatim>\<open>json.dump(data, file, indent=4)\<close> runs it\<close>

text \<open>
  The standard encoder with its defaults and \<^verbatim>\<open>indent=4\<close>: items are separated by a
  comma, a key from its value by a colon and a space, every item starts on a new line
  indented by four spaces per nesting level, an empty list is \<^verbatim>\<open>[]\<close> and an empty
  dictionary \<^verbatim>\<open>{}\<close>. Strings are written with \<^verbatim>\<open>ensure_ascii\<close>: the quote and the
  backslash are escaped, so are the control characters, and every character outside
  the printable ASCII range is written as \<^verbatim>\<open>\u00XX\<close>. How a float is written is the
  parameter \<open>fr\<close>.
\<close>

definition hex_digit :: "nat \<Rightarrow> char" where
  "hex_digit d = (if d < 10 then char_of (48 + d) else char_of (87 + d))"

definition esc_char :: "char \<Rightarrow> string" where
  "esc_char c =
     (if c = CHR 0x22 then [CHR 0x5C, CHR 0x22]
      else if c = CHR 0x5C then [CHR 0x5C, CHR 0x5C]
      else if c = CHR 0x0A then [CHR 0x5C, CHR ''n'']
      else if c = CHR 0x0D then [CHR 0x5C, CHR ''r'']
      else if c = CHR 0x09 then [CHR 0x5C, CHR ''t'']
      else if c = CHR 0x08 then [CHR 0x5C, CHR ''b'']
      else if c = CHR 0x0C then [CHR 0x5C, CHR ''f'']
      else if 32 \<le> (of_char c :: nat) \<and> (of_char c :: nat) \<le> 126 then [c]
      else [CHR 0x5C, CHR ''u'', CHR ''0'', CHR ''0'',
            hex_digit (of_char c div 16), hex_digit (of_char c mod 16)])"

definition dump_str :: "string \<Rightarrow> string" where
  "dump_str s = CHR 0x22 # concat (map esc_char s) @ [CHR 0x22]"

definition newline_indent :: "nat \<Rightarrow> string" where
  "newline_indent n = CHR 0x0A # replicate (4 * n) CHR '' ''"

fun join :: "'a list \<Rightarrow> 'a list list \<Rightarrow> 'a list" where
  "join sep [] = []"
| "join sep [x] = x"
| "join sep (x # y # ys) = x @ sep @ join sep (y # ys)"

fun dumps :: "('f \<Rightarrow> string) \<Rightarrow> nat \<Rightarrow> 'f json \<Rightarrow> string" where
  "dumps fr n JNull = ''null''"
| "dumps fr n (JBool b) = (if b then ''true'' else ''false'')"
| "dumps fr n (JInt i) = str_int i"
| "dumps fr n (JFloat f) = fr f"
| "dumps fr n (JStr s) = dump_str s"
| "dumps fr n (JArr xs) =
     (if xs = [] then ''[]''
      else ''['' @ newline_indent (Suc n)
           @ join (CHR '','' # newline_indent (Suc n)) (map (dumps fr (Suc n)) xs)
           @ newline_indent n @ '']'')"
| "dumps fr n (JObj kvs) =
     (if kvs = [] then ''{}''
      else ''{'' @ newline_indent (Suc n)
           @ join (CHR '','' # newline_indent (Suc n))
               (map (\<lambda>kv. dump_str (fst kv) @ '': '' @ dumps fr (Suc n) (snd kv)) kvs)
           @ newline_indent n @ ''}'')"

section \<open>The JSON decoder, as \<^verbatim>\<open>json.load\<close> runs it\<close>

text \<open>
  The standard decoder: white space is skipped around the structural characters, a
  string ends at the first unescaped double quote, a number is the longest text of the
  form \<^verbatim>\<open>-?(0|[1-9][0-9]*)(\.[0-9]+)?([eE][-+]?[0-9]+)?\<close> and is a float when it has
  a fraction or an exponent, \<^verbatim>\<open>NaN\<close>, \<^verbatim>\<open>Infinity\<close> and \<^verbatim>\<open>-Infinity\<close> are floats, and a
  dictionary is built from its pairs in order, a repeated key keeping its first place
  and taking its last value. How a float is read from its text is the parameter \<open>fp\<close>.
  An escape \<^verbatim>\<open>\uXXXX\<close> of a code point from 256 on is outside the characters modelled
  here and is refused.
\<close>

definition is_ws :: "char \<Rightarrow> bool" where
  "is_ws c = (c = CHR '' '' \<or> c = CHR 0x09 \<or> c = CHR 0x0A \<or> c = CHR 0x0D)"

definition skip_ws :: "string \<Rightarrow> string" where
  "skip_ws s = dropWhile is_ws s"

definition is_digit :: "char \<Rightarrow> bool" where
  "is_digit c = (48 \<le> (of_char c :: nat) \<and> (of_char c :: nat) \<le> 57)"

definition digit_val :: "char \<Rightarrow> nat" where
  "digit_val c = of_char c - 48"

definition nat_of_digits :: "string \<Rightarrow> nat" where
  "nat_of_digits ds = foldl (\<lambda>a c. 10 * a + digit_val c) 0 ds"

text \<open>\<^verbatim>\<open>int(text)\<close> for a text that \<open>scan_int\<close> has accepted.\<close>

definition int_of_text :: "string \<Rightarrow> int" where
  "int_of_text t =
     (case t of
        [] \<Rightarrow> 0
      | c # ds \<Rightarrow> if c = CHR ''-'' then - int (nat_of_digits ds) else int (nat_of_digits t))"

definition hex_val :: "char \<Rightarrow> nat option" where
  "hex_val c =
     (let n = (of_char c :: nat) in
      if 48 \<le> n \<and> n \<le> 57 then Some (n - 48)
      else if 97 \<le> n \<and> n \<le> 102 then Some (n - 87)
      else if 65 \<le> n \<and> n \<le> 70 then Some (n - 55)
      else None)"

definition unescape :: "char \<Rightarrow> char option" where
  "unescape e =
     (if e = CHR 0x22 then Some (CHR 0x22)
      else if e = CHR 0x5C then Some (CHR 0x5C)
      else if e = CHR ''/'' then Some (CHR ''/'')
      else if e = CHR ''b'' then Some (CHR 0x08)
      else if e = CHR ''f'' then Some (CHR 0x0C)
      else if e = CHR ''n'' then Some (CHR 0x0A)
      else if e = CHR ''r'' then Some (CHR 0x0D)
      else if e = CHR ''t'' then Some (CHR 0x09)
      else None)"

definition push :: "char \<Rightarrow> exn + string \<times> string \<Rightarrow> exn + string \<times> string" where
  "push c res = (case res of Inl e \<Rightarrow> Inl e | Inr (s, rest) \<Rightarrow> Inr (c # s, rest))"

text \<open>The text of a string after its opening quote: the string and what follows its
  closing quote.\<close>

fun scanstring :: "string \<Rightarrow> exn + string \<times> string" where
  "scanstring [] = Inl (JSONDecodeError ''Unterminated string'')"
| "scanstring (c # r) =
     (if c = CHR 0x22 then Inr ([], r)
      else if c = CHR 0x5C then
        (case r of
           [] \<Rightarrow> Inl (JSONDecodeError ''Unterminated string'')
         | e # r1 \<Rightarrow>
             if e = CHR ''u'' then
               (case r1 of
                  h1 # h2 # h3 # h4 # r2 \<Rightarrow>
                    (case (hex_val h1, hex_val h2, hex_val h3, hex_val h4) of
                       (Some x1, Some x2, Some x3, Some x4) \<Rightarrow>
                         (if ((x1 * 16 + x2) * 16 + x3) * 16 + x4 < 256
                          then push (char_of (((x1 * 16 + x2) * 16 + x3) * 16 + x4)) (scanstring r2)
                          else Inl (JSONDecodeError ''code point outside the model''))
                     | _ \<Rightarrow> Inl (JSONDecodeError ''Invalid uXXXX escape''))
                | _ \<Rightarrow> Inl (JSONDecodeError ''Invalid uXXXX escape''))
             else
               (case unescape e of
                  None \<Rightarrow> Inl (JSONDecodeError ''Invalid escape'')
                | Some ch \<Rightarrow> push ch (scanstring r1)))
      else if (of_char c :: nat) < 32 then Inl (JSONDecodeError ''Invalid control character'')
      else push c (scanstring r))"

text \<open>The three parts of a number: each returns the text it matched and the rest.\<close>

definition scan_int :: "string \<Rightarrow> (string \<times> string) option" where
  "scan_int s =
     (let sign = (case s of [] \<Rightarrow> [] | c # r \<Rightarrow> if c = CHR ''-'' then [c] else []);
          r = drop (length sign) s
      in case r of
           [] \<Rightarrow> None
         | d # r' \<Rightarrow>
             if d = CHR ''0'' then Some (sign @ [d], r')
             else if is_digit d then Some (sign @ d # takeWhile is_digit r', dropWhile is_digit r')
             else None)"

definition scan_frac :: "string \<Rightarrow> string \<times> string" where
  "scan_frac s =
     (case s of
        [] \<Rightarrow> ([], s)
      | c # r \<Rightarrow>
          if c = CHR ''.'' \<and> takeWhile is_digit r \<noteq> []
          then (c # takeWhile is_digit r, dropWhile is_digit r)
          else ([], s))"

definition scan_exp :: "string \<Rightarrow> string \<times> string" where
  "scan_exp s =
     (case s of
        [] \<Rightarrow> ([], s)
      | c # r \<Rightarrow>
          if c = CHR ''e'' \<or> c = CHR ''E'' then
            (let sign = (case r of [] \<Rightarrow> []
                         | g # r' \<Rightarrow> if g = CHR ''+'' \<or> g = CHR ''-'' then [g] else []);
                 r' = drop (length sign) r
             in if takeWhile is_digit r' \<noteq> []
                then (c # sign @ takeWhile is_digit r', dropWhile is_digit r')
                else ([], s))
          else ([], s))"

definition scan_number :: "(string \<Rightarrow> 'f) \<Rightarrow> string \<Rightarrow> ('f json \<times> string) option" where
  "scan_number fp s =
     (case scan_int s of
        None \<Rightarrow> None
      | Some (integer, r1) \<Rightarrow>
          (case scan_frac r1 of (frac, r2) \<Rightarrow>
          (case scan_exp r2 of (exp, r3) \<Rightarrow>
             if frac \<noteq> [] \<or> exp \<noteq> [] then Some (JFloat (fp (integer @ frac @ exp)), r3)
             else Some (JInt (int_of_text integer), r3))))"

text \<open>\<^verbatim>\<open>dict(pairs)\<close>: the pairs are stored one after the other.\<close>

fun dict_set :: "(string \<times> 'v) list \<Rightarrow> string \<Rightarrow> 'v \<Rightarrow> (string \<times> 'v) list" where
  "dict_set [] k v = [(k, v)]"
| "dict_set (p # d) k v = (if fst p = k then (k, v) # d else p # dict_set d k v)"

definition dict_of :: "(string \<times> 'v) list \<Rightarrow> (string \<times> 'v) list" where
  "dict_of pairs = foldl (\<lambda>d p. dict_set d (fst p) (snd p)) [] pairs"

text \<open>
  The decoder proper. Its recursion follows the nesting of the text and the items of
  a list or dictionary; the first argument after \<open>fp\<close> bounds the number of
  calls, and \<open>loads\<close> starts it with more than the length of the text.
  \<open>parse_items\<close> reads the items of a list up to its closing bracket,
  \<open>parse_members\<close> the pairs of a dictionary from just after the opening quote of a key
  up to its closing brace.
\<close>

fun parse_value :: "(string \<Rightarrow> 'f) \<Rightarrow> nat \<Rightarrow> string \<Rightarrow> exn + 'f json \<times> string"
  and parse_items :: "(string \<Rightarrow> 'f) \<Rightarrow> nat \<Rightarrow> string \<Rightarrow> exn + 'f json list \<times> string"
  and parse_members :: "(string \<Rightarrow> 'f) \<Rightarrow> nat \<Rightarrow> string \<Rightarrow> exn + (string \<times> 'f json) list \<times> string"
where
  "parse_value fp 0 s = Inl RecursionError"
| "parse_value fp (Suc n) s =
     (case s of
        [] \<Rightarrow> Inl (JSONDecodeError ''Expecting value'')
      | c # r \<Rightarrow>
          if c = CHR 0x22 then
            (case scanstring r of
               Inl e \<Rightarrow> Inl e
             | Inr (str, r') \<Rightarrow> Inr (JStr str, r'))
          else if c = CHR ''{'' then
            (case skip_ws r of
               [] \<Rightarrow> Inl (JSONDecodeError ''Expecting property name enclosed in double quotes'')
             | c' # r' \<Rightarrow>
                 if c' = CHR ''}'' then Inr (JObj [], r')
                 else if c' = CHR 0x22 then
                   (case parse_members fp n r' of
                      Inl e \<Rightarrow> Inl e
                    | Inr (pairs, r'') \<Rightarrow> Inr (JObj (dict_of pairs), r''))
                 else Inl (JSONDecodeError ''Expecting property name enclosed in double quotes''))
          else if c = CHR ''['' then
            (case skip_ws r of
               [] \<Rightarrow> Inl (JSONDecodeError ''Expecting value'')
             | c' # r' \<Rightarrow>
                 if c' = CHR '']'' then Inr (JArr [], r')
                 else
                   (case parse_items fp n (c' # r') of
                      Inl e \<Rightarrow> Inl e
                    | Inr (values, r'') \<Rightarrow> Inr (JArr values, r'')))
          else if take 4 s = ''null'' then Inr (JNull, drop 4 s)
          else if take 4 s = ''true'' then Inr (JBool True, drop 4 s)
          else if take 5 s = ''false'' then Inr (JBool False, drop 5 s)
          else
            (case scan_number fp s of
               Some res \<Rightarrow> Inr res
             | None \<Rightarrow>
                 if take 3 s = ''NaN'' then Inr (JFloat (fp ''NaN''), drop 3 s)
                 else if take 8 s = ''Infinity'' then Inr (JFloat (fp ''Infinity''), drop 8 s)
                 else if take 9 s = ''-Infinity'' then Inr (JFloat (fp ''-Infinity''), drop 9 s)
                 else Inl (JSONDecodeError ''Expecting value'')))"
| "parse_items fp 0 s = Inl RecursionError"
| "parse_items fp (Suc n) s =
     (case parse_value fp n s of
        Inl e \<Rightarrow> Inl e
      | Inr (v, r) \<Rightarrow>
          (case skip_ws r of
             [] \<Rightarrow> Inl (JSONDecodeError ''Expecting , delimiter'')
           | c # r' \<Rightarrow>
               if c = CHR '']'' then Inr ([v], r')
               else if c = CHR '','' then
                 (case parse_items fp n (skip_ws r') of
                    Inl e \<Rightarrow> Inl e
                  | Inr (vs, r'') \<Rightarrow> Inr (v # vs, r''))
               else Inl (JSONDecodeError ''Expecting , delimiter'')))"
| "parse_members fp 0 s = Inl RecursionError"
| "parse_members fp (Suc n) s =
     (case scanstring s of
        Inl e \<Rightarrow> Inl e
      | Inr (key, r) \<Rightarrow>
          (case skip_ws r of
             [] \<Rightarrow> Inl (JSONDecodeError ''Expecting : delimiter'')
           | c # r1 \<Rightarrow>
               if c = CHR '':'' then
                 (case parse_value fp n (skip_ws r1) of
                    Inl e \<Rightarrow> Inl e
                  | Inr (v, r2) \<Rightarrow>
                      (case skip_ws r2 of
                         [] \<Rightarrow> Inl (JSONDecodeError ''Expecting , delimiter'')
                       | c' # r3 \<Rightarrow>
                           if c' = CHR ''}'' then Inr ([(key, v)], r3)
                           else if c' = CHR '','' then
                             (case skip_ws r3 of
                                [] \<Rightarrow> Inl (JSONDecodeError
                                        ''Expecting property name enclosed in double quotes'')
                              | c'' # r4 \<Rightarrow>
                                  if c'' = CHR 0x22 then
                                    (case parse_members fp n r4 of
                                       Inl e \<Rightarrow> Inl e
                                     | Inr (pairs, r5) \<Rightarrow> Inr ((key, v) # pairs, r5))
                                  else Inl (JSONDecodeError
                                        ''Expecting property name enclosed in double quotes''))
                           else Inl (JSONDecodeError ''Expecting , delimiter'')))
               else Inl (JSONDecodeError ''Expecting : delimiter'')))"

text \<open>\<^verbatim>\<open>json.loads(s)\<close>: one value, with nothing but white space around it.\<close>

definition loads :: "(string \<Rightarrow> 'f) \<Rightarrow> string \<Rightarrow> exn + 'f json" where
  "loads fp s =
     (case parse_value fp (Suc (length s)) (skip_ws s) of
        Inl e \<Rightarrow> Inl e
      | Inr (v, r) \<Rightarrow> if skip_ws r = [] then Inr v else Inl (JSONDecodeError ''Extra data''))"

section \<open>The world outside the program\<close>

text \<open>
  A request as \<^verbatim>\<open>requests.Session.get(endpoint, params=params)\<close> receives it, and a
  response as the program reads it: \<open>status_code\<close>, \<open>resp_text\<close> for \<^verbatim>\<open>response.text\<close>
  and \<open>resp_json\<close> for what \<^verbatim>\<open>response.json()\<close> returns or raises.
\<close>

datatype param = PStr string | PInt int | PBool bool

record request =
  http_method :: string
  url :: string
  params :: "(string \<times> param) list"

record 'f response =
  status_code :: int
  resp_text :: string
  resp_json :: "exn + 'f json"

text \<open>
  What the program prints, one constructor per \<^verbatim>\<open>print\<close> call of the source:
  the fetching notice, the heading of the table, one line per coin (name, upper-case
  symbol, price, market cap, already formatted), the notice after a file is saved,
  the final notice, and the handler's line with the text of the exception.
\<close>

datatype msg =
    Fetching
  | Heading
  | CoinLine string string string string
  | Saved string
  | Done
  | ErrorOccurred string

datatype step = Fetch | Display | SaveJson | SaveCsv | Plot

text \<open>
  The state the program acts on: the requests sent so far, the lines printed, the files
  of the working directory, the charts shown, and \<open>calls\<close>, the operations that \<^verbatim>\<open>run\<close>
  has invoked, in order.
\<close>

record 'f world =
  http_log :: "request list"
  stdout :: "msg list"
  files :: "string \<rightharpoonup> string"
  charts :: "('f json list \<times> 'f json list) list"
  calls :: "step list"

text \<open>
  What the libraries and the environment decide: the answer to a request (or the
  exception of a network failure), whether opening a file for writing fails, whether
  drawing a chart fails, how \<^verbatim>\<open>str\<close> formats a value, what \<^verbatim>\<open>str.upper\<close> returns, and how
  a float is written.
\<close>

record 'f env =
  session_get :: "request \<Rightarrow> exn + 'f response"
  open_error :: "string \<Rightarrow> exn option"
  plot_error :: "'f json list \<Rightarrow> 'f json list \<Rightarrow> exn option"
  py_str :: "'f json \<Rightarrow> string"
  py_upper :: "string \<Rightarrow> string"
  float_repr :: "'f \<Rightarrow> string"

definition print_msg :: "msg \<Rightarrow> 'f world \<Rightarrow> 'f world" where
  "print_msg m w = w\<lparr>stdout := stdout w @ [m]\<rparr>"

definition enter :: "step \<Rightarrow> 'f world \<Rightarrow> 'f world" where
  "enter s w = w\<lparr>calls := calls w @ [s]\<rparr>"

text \<open>\<^verbatim>\<open>file.write(s)\<close> on a file opened for writing: the text is appended.\<close>

definition file_write :: "string \<Rightarrow> string \<Rightarrow> 'f world \<Rightarrow> 'f world" where
  "file_write filename s w =
     w\<lparr>files := (files w)(filename \<mapsto> (case files w filename of None \<Rightarrow> s | Some c \<Rightarrow> c @ s))\<rparr>"

text \<open>\<^verbatim>\<open>open(filename, 'w')\<close> once it has succeeded: the file exists and is empty.\<close>

definition file_truncate :: "string \<Rightarrow> 'f world \<Rightarrow> 'f world" where
  "file_truncate filename w = w\<lparr>files := (files w)(filename \<mapsto> [])\<rparr>"

section \<open>\<^verbatim>\<open>CoinGeckoAPI\<close>\<close>

definition BASE_URL :: string where
  "BASE_URL = ''https://api.coingecko.com/api/v3''"

definition market_request :: "string \<Rightarrow> int \<Rightarrow> request" where
  "market_request vs_currency per_page =
     \<lparr>http_method = ''GET'',
      url = BASE_URL @ ''/coins/markets'',
      params = [(''vs_currency'', PStr vs_currency),
                (''order'', PStr ''market_cap_desc''),
                (''per_page'', PInt per_page),
                (''page'', PInt 1),
                (''sparkline'', PBool False)]\<rparr>"

definition get_market_data ::
  "'f env \<Rightarrow> string \<Rightarrow> int \<Rightarrow> 'f world \<Rightarrow> (exn + 'f json) \<times> 'f world" where
  "get_market_data env vs_currency per_page w =
     (let req = market_request vs_currency per_page;
          w' = w\<lparr>http_log := http_log w @ [req]\<rparr>
      in case session_get env req of
           Inl e \<Rightarrow> (Inl e, w')
         | Inr response \<Rightarrow>
             if status_code response = 200 then (resp_json response, w')
             else (Inl (Exception (''API Error: '' @ str_int (status_code response)
                                    @ '' - '' @ resp_text response)), w'))"

section \<open>\<^verbatim>\<open>CryptoDataManager\<close>\<close>

record 'f manager =
  data :: "'f json"

definition save_to_json ::
  "'f env \<Rightarrow> string \<Rightarrow> 'f manager \<Rightarrow> 'f world \<Rightarrow> (exn + unit) \<times> 'f manager \<times> 'f world" where
  "save_to_json env filename self w =
     (case open_error env filename of
        Some e \<Rightarrow> (Inl e, self, w)
      | None \<Rightarrow>
          (Inr (), self,
           print_msg (Saved filename)
             (file_write filename (dumps (float_repr env) 0 (data self))
                (file_truncate filename w))))"

subsection \<open>The CSV writer\<close>

text \<open>
  \<^verbatim>\<open>csv.DictWriter\<close> with the default dialect: a field that is \<^verbatim>\<open>None\<close> is written as the
  empty string, a string as it is, any other value through \<^verbatim>\<open>str\<close>; a field holding a
  comma, a double quote, a carriage return or a line feed is put in double quotes with
  its double quotes doubled; fields are joined by commas and the row ends with
  \<^verbatim>\<open>\r\n\<close>.
\<close>

definition csv_text :: "'f env \<Rightarrow> 'f json \<Rightarrow> string" where
  "csv_text env v = (case v of JNull \<Rightarrow> [] | JStr s \<Rightarrow> s | _ \<Rightarrow> py_str env v)"

definition csv_quote :: "string \<Rightarrow> string" where
  "csv_quote s =
     (if \<exists>c \<in> set s. c = CHR '','' \<or> c = CHR 0x22 \<or> c = CHR 0x0D \<or> c = CHR 0x0A
      then CHR 0x22 # concat (map (\<lambda>c. if c = CHR 0x22 then [c, c] else [c]) s) @ [CHR 0x22]
      else s)"

definition csv_line :: "'f env \<Rightarrow> 'f json list \<Rightarrow> string" where
  "csv_line env row = join '','' (map (\<lambda>v. csv_quote (csv_text env v)) row) @ [CHR 0x0D, CHR 0x0A]"

definition keys :: "string list" where
  "keys = [''id'', ''symbol'', ''name'', ''current_price'', ''market_cap'', ''total_volume'']"

text \<open>\<^verbatim>\<open>{key: item.get(key, "") for key in keys}\<close>, in the order of \<open>keys\<close>.\<close>

definition csv_row :: "'f json \<Rightarrow> exn + 'f json list" where
  "csv_row item = map_exn (\<lambda>key. get_default item key (JStr [])) keys"

fun write_rows :: "'f env \<Rightarrow> string \<Rightarrow> 'f json list \<Rightarrow> 'f world \<Rightarrow> (exn + unit) \<times> 'f world" where
  "write_rows env filename [] w = (Inr (), w)"
| "write_rows env filename (item # items) w =
     (case csv_row item of
        Inl e \<Rightarrow> (Inl e, w)
      | Inr row \<Rightarrow> write_rows env filename items (file_write filename (csv_line env row) w))"

definition save_to_csv ::
  "'f env \<Rightarrow> string \<Rightarrow> 'f manager \<Rightarrow> 'f world \<Rightarrow> (exn + unit) \<times> 'f manager \<times> 'f world" where
  "save_to_csv env filename self w =
     (case open_error env filename of
        Some e \<Rightarrow> (Inl e, self, w)
      | None \<Rightarrow>
          (let w1 = file_write filename (csv_line env (map JStr keys)) (file_truncate filename w)
           in case py_iter (data self) of
                Inl e \<Rightarrow> (Inl e, self, w1)
              | Inr items \<Rightarrow>
                  (case write_rows env filename items w1 of
                     (Inl e, w2) \<Rightarrow> (Inl e, self, w2)
                   | (Inr u, w2) \<Rightarrow> (Inr (), self, print_msg (Saved filename) w2))))"

subsection \<open>Printing and plotting\<close>

text \<open>\<^verbatim>\<open>value.upper()\<close>: only a string has the method.\<close>

definition upper :: "'f env \<Rightarrow> 'f json \<Rightarrow> exn + string" where
  "upper env v = (case v of JStr s \<Rightarrow> Inr (py_upper env s)
                  | _ \<Rightarrow> Inl (AttributeError (type_name v) ''upper''))"

text \<open>The f-string of \<^verbatim>\<open>display_data\<close>, its fields evaluated from left to right.\<close>

definition coin_line :: "'f env \<Rightarrow> 'f json \<Rightarrow> exn + msg" where
  "coin_line env coin =
     (case getitem coin ''name'' of
        Inl e \<Rightarrow> Inl e
      | Inr name \<Rightarrow>
     (case getitem coin ''symbol'' of
        Inl e \<Rightarrow> Inl e
      | Inr symbol \<Rightarrow>
     (case upper env symbol of
        Inl e \<Rightarrow> Inl e
      | Inr usymbol \<Rightarrow>
     (case getitem coin ''current_price'' of
        Inl e \<Rightarrow> Inl e
      | Inr price \<Rightarrow>
     (case getitem coin ''market_cap'' of
        Inl e \<Rightarrow> Inl e
      | Inr cap \<Rightarrow>
          Inr (CoinLine (py_str env name) usymbol (py_str env price) (py_str env cap)))))))"

fun print_coins :: "'f env \<Rightarrow> 'f json list \<Rightarrow> 'f world \<Rightarrow> (exn + unit) \<times> 'f world" where
  "print_coins env [] w = (Inr (), w)"
| "print_coins env (coin # coins) w =
     (case coin_line env coin of
        Inl e \<Rightarrow> (Inl e, w)
      | Inr line \<Rightarrow> print_coins env coins (print_msg line w))"

definition display_data ::
  "'f env \<Rightarrow> 'f manager \<Rightarrow> 'f world \<Rightarrow> (exn + unit) \<times> 'f manager \<times> 'f world" where
  "display_data env self w =
     (let w1 = print_msg Heading w
      in case py_iter (data self) of
           Inl e \<Rightarrow> (Inl e, self, w1)
         | Inr coins \<Rightarrow> (case print_coins env coins w1 of (r, w2) \<Rightarrow> (r, self, w2)))"

definition plot_market_caps ::
  "'f env \<Rightarrow> 'f manager \<Rightarrow> 'f world \<Rightarrow> (exn + unit) \<times> 'f manager \<times> 'f world" where
  "plot_market_caps env self w =
     (case py_iter (data self) of
        Inl e \<Rightarrow> (Inl e, self, w)
      | Inr coins \<Rightarrow>
     (case map_exn (\<lambda>coin. getitem coin ''name'') coins of
        Inl e \<Rightarrow> (Inl e, self, w)
      | Inr names \<Rightarrow>
     (case map_exn (\<lambda>coin. getitem coin ''market_cap'') coins of
        Inl e \<Rightarrow> (Inl e, self, w)
      | Inr market_caps \<Rightarrow>
     (case plot_error env names market_caps of
        Some e \<Rightarrow> (Inl e, self, w)
      | None \<Rightarrow> (Inr (), self, w\<lparr>charts := charts w @ [(names, market_caps)]\<rparr>)))))"

section \<open>\<^verbatim>\<open>CryptoApp\<close>\<close>

text \<open>The body of the \<^verbatim>\<open>try\<close> block of \<^verbatim>\<open>run\<close>: the first exception ends it.\<close>

definition run_body :: "'f env \<Rightarrow> 'f world \<Rightarrow> (exn + unit) \<times> 'f world" where
  "run_body env w =
     (case get_market_data env ''usd'' 10 (enter Fetch (print_msg Fetching w)) of
        (Inl e, w1) \<Rightarrow> (Inl e, w1)
      | (Inr market_data, w1) \<Rightarrow>
     (case display_data env \<lparr>data = market_data\<rparr> (enter Display w1) of
        (Inl e, manager, w2) \<Rightarrow> (Inl e, w2)
      | (Inr u, manager, w2) \<Rightarrow>
     (case save_to_json env ''crypto_data.json'' manager (enter SaveJson w2) of
        (Inl e, manager, w3) \<Rightarrow> (Inl e, w3)
      | (Inr u, manager, w3) \<Rightarrow>
     (case save_to_csv env ''crypto_data.csv'' manager (enter SaveCsv w3) of
        (Inl e, manager, w4) \<Rightarrow> (Inl e, w4)
      | (Inr u, manager, w4) \<Rightarrow>
     (case plot_market_caps env manager (enter Plot w4) of
        (Inl e, manager, w5) \<Rightarrow> (Inl e, w5)
      | (Inr u, manager, w5) \<Rightarrow> (Inr (), print_msg Done w5))))))"

text \<open>\<^verbatim>\<open>run\<close>: the \<^verbatim>\<open>try\<close> block and its handler \<^verbatim>\<open>except Exception as e\<close>, which prints
  the exception. The result is \<open>Inr ()\<close> when \<^verbatim>\<open>run\<close> returns and \<open>Inl e\<close> when it lets an
  exception through.\<close>

definition run :: "'f env \<Rightarrow> 'f world \<Rightarrow> (exn + unit) \<times> 'f world" where
  "run env w =
     (case run_body env w of
        (Inl e, w') \<Rightarrow> (Inr (), print_msg (ErrorOccurred (exn_str e)) w')
      | (Inr u, w') \<Rightarrow> (Inr (), w'))"

section \<open>Columns of a record and a sample environment\<close>

text \<open>The value a record has in a column: its field, or the empty string when the
  record has no such field.\<close>

definition column :: "(string \<times> 'f json) list \<Rightarrow> string \<Rightarrow> 'f json" where
  "column record key = (case map_of record key of None \<Rightarrow> JStr [] | Some v \<Rightarrow> v)"

text \<open>
  A small environment to run the program in. Its floats are the whole numbers, written
  with a trailing \<^verbatim>\<open>.0\<close>; the server's answer is a parameter; files can be written and
  charts drawn.
\<close>

definition sample_float_repr :: "int \<Rightarrow> string" where
  "sample_float_repr i = str_int i @ ''.0''"

definition sample_float_parse :: "string \<Rightarrow> int" where
  "sample_float_parse t = int_of_text (takeWhile (\<lambda>c. c \<noteq> CHR ''.'') t)"

definition sample_str :: "int json \<Rightarrow> string" where
  "sample_str v = (case v of JStr s \<Rightarrow> s | JInt i \<Rightarrow> str_int i
                   | JFloat f \<Rightarrow> sample_float_repr f | _ \<Rightarrow> ''?'')"

definition sample_env :: "(exn + int response) \<Rightarrow> int env" where
  "sample_env answer =
     \<lparr>session_get = (\<lambda>req. answer), open_error = (\<lambda>filename. None),
      plot_error = (\<lambda>names market_caps. None), py_str = sample_str,
      py_upper = (\<lambda>s. s), float_repr = sample_float_repr\<rparr>"

definition empty_world :: "int world" where
  "empty_world = \<lparr>http_log = [], stdout = [], files = Map.empty, charts = [], calls = []\<rparr>"

definition bitcoin :: "(string \<times> int json) list" where
  "bitcoin = [(''id'', JStr ''bitcoin''), (''symbol'', JStr ''btc''), (''name'', JStr ''Bitcoin''),
              (''current_price'', JFloat 67000), (''market_cap'', JInt 1300000000000),
              (''total_volume'', JInt 30000000000)]"

definition tether :: "(string \<times> int json) list" where
  "tether = [(''id'', JStr ''tether''), (''symbol'', JStr ''usdt''), (''name'', JStr ''Tether, USD''),
             (''current_price'', JInt 1), (''market_cap'', JInt 110000000000)]"

definition nameless :: "(string \<times> int json) list" where
  "nameless = [(''id'', JStr ''bitcoin''), (''symbol'', JStr ''btc'')]"

definition ok_response :: "int json \<Rightarrow> int response" where
  "ok_response v =
     \<lparr>status_code = 200, resp_text = dumps sample_float_repr 0 v, resp_json = Inr v\<rparr>"

definition not_found :: "int response" where
  "not_found = \<lparr>status_code = 404, resp_text = ''Not Found'',
                 resp_json = Inl (JSONDecodeError ''Expecting value'')\<rparr>"

section \<open>The API client\<close>

text \<open>
  Claim C1. When the response has status code 200, \<^verbatim>\<open>get_market_data\<close> returns what
  \<^verbatim>\<open>response.json()\<close> yields for that response, unchanged: the parsed body when the
  body parses, and the decoder's exception otherwise.
\<close>

theorem get_market_data_200:
  "session_get env (market_request vs_currency per_page) = Inr response \<Longrightarrow>
   status_code response = 200 \<Longrightarrow>
   fst (get_market_data env vs_currency per_page w) = resp_json response"
  by (simp add: get_market_data_def)

theorem get_market_data_200_witness:
  "session_get (sample_env (Inr (ok_response (JArr [JObj bitcoin])))) (market_request ''usd'' 10)
     = Inr (ok_response (JArr [JObj bitcoin]))
   \<and> status_code (ok_response (JArr [JObj bitcoin])) = 200
   \<and> fst (get_market_data (sample_env (Inr (ok_response (JArr [JObj bitcoin])))) ''usd'' 10
            empty_world) = Inr (JArr [JObj bitcoin])"
proof -
  have a: "session_get (sample_env (Inr (ok_response (JArr [JObj bitcoin]))))
             (market_request ''usd'' 10) = Inr (ok_response (JArr [JObj bitcoin]))"
    by (simp add: sample_env_def)
  have b: "status_code (ok_response (JArr [JObj bitcoin])) = 200"
    by (simp add: ok_response_def)
  have c: "resp_json (ok_response (JArr [JObj bitcoin])) = Inr (JArr [JObj bitcoin])"
    by (simp add: ok_response_def)
  show ?thesis
    using a b c get_market_data_200 [OF a b, of empty_world] by simp
qed

text \<open>
  Claim C2. When the status code is not 200, \<^verbatim>\<open>get_market_data\<close> returns no value: it
  raises an exception whose message is \<^verbatim>\<open>API Error: \<close> followed by the status code in
  decimal, \<^verbatim>\<open> - \<close> and the text of the body, so the message contains both.
\<close>

theorem get_market_data_not_200:
  "session_get env (market_request vs_currency per_page) = Inr response \<Longrightarrow>
   status_code response \<noteq> 200 \<Longrightarrow>
   fst (get_market_data env vs_currency per_page w)
     = Inl (Exception (''API Error: '' @ str_int (status_code response) @ '' - ''
                        @ resp_text response))
   \<and> sublist (str_int (status_code response))
        (''API Error: '' @ str_int (status_code response) @ '' - '' @ resp_text response)
   \<and> sublist (resp_text response)
        (''API Error: '' @ str_int (status_code response) @ '' - '' @ resp_text response)"
proof -
  assume g: "session_get env (market_request vs_currency per_page) = Inr response"
    and n: "status_code response \<noteq> 200"
  have 1: "fst (get_market_data env vs_currency per_page w)
     = Inl (Exception (''API Error: '' @ str_int (status_code response) @ '' - ''
                        @ resp_text response))"
    using g n by (simp add: get_market_data_def)
  have 2: "sublist (str_int (status_code response))
        (''API Error: '' @ str_int (status_code response) @ '' - '' @ resp_text response)"
    by (rule sublist_appendI)
  have "sublist (resp_text response)
        ((''API Error: '' @ str_int (status_code response) @ '' - '') @ resp_text response @ [])"
    by (rule sublist_appendI)
  then have 3: "sublist (resp_text response)
        (''API Error: '' @ str_int (status_code response) @ '' - '' @ resp_text response)"
    by simp
  show ?thesis using 1 2 3 by blast
qed

lemma str_int_404: "str_int 404 = ''404''"
  by code_simp

theorem get_market_data_not_200_witness:
  "session_get (sample_env (Inr not_found)) (market_request ''usd'' 10) = Inr not_found
   \<and> status_code not_found \<noteq> 200
   \<and> fst (get_market_data (sample_env (Inr not_found)) ''usd'' 10 empty_world)
       = Inl (Exception ''API Error: 404 - Not Found'')"
proof -
  have a: "session_get (sample_env (Inr not_found)) (market_request ''usd'' 10) = Inr not_found"
    by (simp add: sample_env_def)
  have b: "status_code not_found \<noteq> 200"
    by (simp add: not_found_def)
  have c: "status_code not_found = 404" "resp_text not_found = ''Not Found''"
    by (simp_all add: not_found_def)
  show ?thesis
    using a b get_market_data_not_200 [OF a b, of empty_world]
    by (simp add: c str_int_404)
qed

text \<open>
  Claim C6. Every call of \<^verbatim>\<open>get_market_data\<close> sends exactly one request: a GET to the
  endpoint \<^verbatim>\<open>/coins/markets\<close> under the base URL, with the five query parameters
  \<^verbatim>\<open>vs_currency\<close> (the given currency), \<^verbatim>\<open>order\<close> (\<^verbatim>\<open>market_cap_desc\<close>), \<^verbatim>\<open>per_page\<close> (the
  given page size), \<^verbatim>\<open>page\<close> (1) and \<^verbatim>\<open>sparkline\<close> (false), and no other parameter.
\<close>

theorem get_market_data_request:
  "http_log (snd (get_market_data env vs_currency per_page w))
     = http_log w @ [\<lparr>http_method = ''GET'',
                      url = ''https://api.coingecko.com/api/v3/coins/markets'',
                      params = [(''vs_currency'', PStr vs_currency),
                                (''order'', PStr ''market_cap_desc''),
                                (''per_page'', PInt per_page),
                                (''page'', PInt 1),
                                (''sparkline'', PBool False)]\<rparr>]"
  by (simp add: get_market_data_def market_request_def BASE_URL_def Let_def split: sum.splits)

section \<open>The data manager\<close>

text \<open>
  Claim C7. Each of \<^verbatim>\<open>display_data\<close>, \<^verbatim>\<open>save_to_json\<close>, \<^verbatim>\<open>save_to_csv\<close> and
  \<^verbatim>\<open>plot_market_caps\<close> leaves the manager as it was, whether it returns or raises: the
  held data after the operation is the data before it.
\<close>

theorem manager_data_unchanged:
  "data (fst (snd (display_data env self w))) = data self
   \<and> data (fst (snd (save_to_json env filename self w))) = data self
   \<and> data (fst (snd (save_to_csv env filename self w))) = data self
   \<and> data (fst (snd (plot_market_caps env self w))) = data self"
  by (simp add: display_data_def save_to_json_def save_to_csv_def plot_market_caps_def Let_def
      split: sum.splits option.splits prod.splits)

subsection \<open>Writing the CSV file\<close>

lemma file_write_truncate:
  "file_write filename s (file_truncate filename w) = w\<lparr>files := (files w)(filename \<mapsto> s)\<rparr>"
  by (simp add: file_write_def file_truncate_def)

lemma file_write_twice:
  "file_write filename b (file_write filename a w) = file_write filename (a @ b) w"
  by (simp add: file_write_def split: option.splits)

lemma file_write_nothing:
  "files w filename = Some c \<Longrightarrow> file_write filename [] w = w"
  by (simp add: file_write_def fun_upd_idem)

lemma files_file_write:
  "\<exists>c. files (file_write filename s w) filename = Some c"
  by (simp add: file_write_def)

lemma csv_row_record:
  "csv_row (JObj r) = Inr [column r ''id'', column r ''symbol'', column r ''name'',
     column r ''current_price'', column r ''market_cap'', column r ''total_volume'']"
  by (simp add: csv_row_def keys_def column_def split: option.splits)

text \<open>The loop over the records appends one line per record, in order.\<close>

lemma write_rows_records:
  "files w filename = Some c \<Longrightarrow>
   write_rows env filename (map JObj records) w =
     (Inr (), file_write filename (concat (map (\<lambda>r. csv_line env
        [column r ''id'', column r ''symbol'', column r ''name'',
         column r ''current_price'', column r ''market_cap'', column r ''total_volume''])
        records)) w)"
proof (induction records arbitrary: w c)
  case Nil
  then show ?case by (simp add: file_write_nothing)
next
  case (Cons r records)
  let ?l = "csv_line env [column r ''id'', column r ''symbol'', column r ''name'',
         column r ''current_price'', column r ''market_cap'', column r ''total_volume'']"
  obtain c' where f: "files (file_write filename ?l w) filename = Some c'"
    using files_file_write by blast
  show ?case
    by (simp only: list.map write_rows.simps csv_row_record sum.case Cons.IH [OF f]
          file_write_twice concat.simps)
qed

text \<open>A row of six fields is written as the six fields, each rendered and quoted as
  needed, with commas between them.\<close>

lemma csv_line_six:
  "csv_line env [a, b, c, d, e, f] =
     csv_quote (csv_text env a) @ '','' @ csv_quote (csv_text env b) @ '','' @
     csv_quote (csv_text env c) @ '','' @ csv_quote (csv_text env d) @ '','' @
     csv_quote (csv_text env e) @ '','' @ csv_quote (csv_text env f) @ [CHR 0x0D, CHR 0x0A]"
  by (simp add: csv_line_def)

lemma header_line:
  "csv_line env [JStr ''id'', JStr ''symbol'', JStr ''name'',
                 JStr ''current_price'', JStr ''market_cap'', JStr ''total_volume'']
   = ''id,symbol,name,current_price,market_cap,total_volume'' @ [CHR 0x0D, CHR 0x0A]"
  by (simp add: csv_line_def csv_text_def csv_quote_def)

lemma missing_column_empty:
  "map_of r k = None \<Longrightarrow> csv_quote (csv_text env (column r k)) = []"
  by (simp add: column_def csv_text_def csv_quote_def)

text \<open>
  Claim C3. For a list of records, when the file can be opened, \<^verbatim>\<open>save_to_csv\<close> returns
  normally and the file then holds the header row followed by one row per record, in
  the order of the records; every row has the six columns \<^verbatim>\<open>id\<close>, \<^verbatim>\<open>symbol\<close>, \<^verbatim>\<open>name\<close>,
  \<^verbatim>\<open>current_price\<close>, \<^verbatim>\<open>market_cap\<close>, \<^verbatim>\<open>total_volume\<close> in this order, and a field the record
  lacks is written as the empty string.
\<close>

theorem save_to_csv_rows:
  assumes "open_error env filename = None"
  shows "save_to_csv env filename \<lparr>data = JArr (map JObj records)\<rparr> w =
    (Inr (), \<lparr>data = JArr (map JObj records)\<rparr>,
     print_msg (Saved filename) (w\<lparr>files := (files w)(filename \<mapsto>
        csv_line env [JStr ''id'', JStr ''symbol'', JStr ''name'',
                      JStr ''current_price'', JStr ''market_cap'', JStr ''total_volume'']
        @ concat (map (\<lambda>r. csv_line env
            [column r ''id'', column r ''symbol'', column r ''name'',
             column r ''current_price'', column r ''market_cap'', column r ''total_volume''])
          records))\<rparr>))
    \<and> (\<forall>r k. map_of r k = None \<longrightarrow> csv_quote (csv_text env (column r k)) = [])"
proof -
  let ?h = "csv_line env (map JStr keys)"
  obtain c where f: "files (file_write filename ?h (file_truncate filename w)) filename = Some c"
    using files_file_write by blast
  have k: "map JStr keys = [JStr ''id'', JStr ''symbol'', JStr ''name'',
                      JStr ''current_price'', JStr ''market_cap'', JStr ''total_volume'' :: 'a json]"
    by (simp add: keys_def)
  have r: "write_rows env filename (map JObj records)
             (w\<lparr>files := (files w)(filename \<mapsto> csv_line env [JStr ''id'', JStr ''symbol'',
                JStr ''name'', JStr ''current_price'', JStr ''market_cap'', JStr ''total_volume''])\<rparr>)
           = (Inr (), w\<lparr>files := (files w)(filename \<mapsto>
                csv_line env [JStr ''id'', JStr ''symbol'', JStr ''name'',
                      JStr ''current_price'', JStr ''market_cap'', JStr ''total_volume'']
                @ concat (map (\<lambda>r. csv_line env
                    [column r ''id'', column r ''symbol'', column r ''name'',
                     column r ''current_price'', column r ''market_cap'', column r ''total_volume''])
                  records))\<rparr>)"
    using write_rows_records [OF f, of env records]
    by (simp add: file_write_truncate k) (simp add: file_write_def)
  have "save_to_csv env filename \<lparr>data = JArr (map JObj records)\<rparr> w =
    (Inr (), \<lparr>data = JArr (map JObj records)\<rparr>,
     print_msg (Saved filename) (w\<lparr>files := (files w)(filename \<mapsto>
        csv_line env [JStr ''id'', JStr ''symbol'', JStr ''name'',
                      JStr ''current_price'', JStr ''market_cap'', JStr ''total_volume'']
        @ concat (map (\<lambda>r. csv_line env
            [column r ''id'', column r ''symbol'', column r ''name'',
             column r ''current_price'', column r ''market_cap'', column r ''total_volume''])
          records))\<rparr>))"
    unfolding save_to_csv_def Let_def
    using assms by (simp add: r file_write_truncate k)
  then show ?thesis
    by (simp add: missing_column_empty)
qed

text \<open>Decimal digits of the sample numbers, computed once.\<close>

lemma digit_chars: "map digit_char [0, 1, 2, 3, 4, 5, 6, 7, 8, 9] = ''0123456789''"
  by code_simp

lemma digit_char_simps:
  "digit_char 0 = CHR ''0''" "digit_char (Suc 0) = CHR ''1''" "digit_char 2 = CHR ''2''"
  "digit_char 3 = CHR ''3''" "digit_char 4 = CHR ''4''" "digit_char 5 = CHR ''5''"
  "digit_char 6 = CHR ''6''" "digit_char 7 = CHR ''7''" "digit_char 8 = CHR ''8''"
  "digit_char 9 = CHR ''9''"
  using digit_chars by simp_all

lemma str_int_samples:
  "str_int 67000 = ''67000''"
  "str_int 1300000000000 = ''1300000000000''"
  "str_int 30000000000 = ''30000000000''"
  "str_int 1 = ''1''"
  "str_int 110000000000 = ''110000000000''"
  "str_int 404 = ''404''"
  by (simp_all add: str_int_def digits.simps digit_char_simps)

lemma sample_csv_lines:
  "csv_line (sample_env a) [column bitcoin ''id'', column bitcoin ''symbol'',
       column bitcoin ''name'', column bitcoin ''current_price'', column bitcoin ''market_cap'',
       column bitcoin ''total_volume'']
     = ''bitcoin,btc,Bitcoin,67000.0,1300000000000,30000000000'' @ [CHR 0x0D, CHR 0x0A]"
  "csv_line (sample_env a) [column tether ''id'', column tether ''symbol'',
       column tether ''name'', column tether ''current_price'', column tether ''market_cap'',
       column tether ''total_volume'']
     = ''tether,usdt,'' @ [CHR 0x22] @ ''Tether, USD'' @ [CHR 0x22] @ '',1,110000000000,''
       @ [CHR 0x0D, CHR 0x0A]"
  by (simp_all add: csv_line_def column_def bitcoin_def tether_def csv_text_def csv_quote_def
        sample_env_def sample_str_def sample_float_repr_def str_int_samples)

theorem save_to_csv_rows_witness:
  "open_error (sample_env (Inr not_found)) ''crypto_data.csv'' = None
   \<and> files (snd (snd (save_to_csv (sample_env (Inr not_found)) ''crypto_data.csv''
               \<lparr>data = JArr (map JObj [bitcoin, tether])\<rparr> empty_world))) ''crypto_data.csv''
       = Some (''id,symbol,name,current_price,market_cap,total_volume'' @ [CHR 0x0D, CHR 0x0A]
               @ ''bitcoin,btc,Bitcoin,67000.0,1300000000000,30000000000'' @ [CHR 0x0D, CHR 0x0A]
               @ ''tether,usdt,'' @ [CHR 0x22] @ ''Tether, USD'' @ [CHR 0x22]
               @ '',1,110000000000,'' @ [CHR 0x0D, CHR 0x0A])
   \<and> map_of tether ''total_volume'' = None"
proof -
  have o: "open_error (sample_env (Inr not_found)) ''crypto_data.csv'' = None"
    by (simp add: sample_env_def)
  have m: "map_of tether ''total_volume'' = None"
    by (simp add: tether_def)
  have c: "concat (map (\<lambda>r. csv_line (sample_env (Inr not_found))
              [column r ''id'', column r ''symbol'', column r ''name'',
               column r ''current_price'', column r ''market_cap'', column r ''total_volume''])
            [bitcoin, tether])
       = (''bitcoin,btc,Bitcoin,67000.0,1300000000000,30000000000'' @ [CHR 0x0D, CHR 0x0A])
         @ (''tether,usdt,'' @ [CHR 0x22] @ ''Tether, USD'' @ [CHR 0x22] @ '',1,110000000000,''
            @ [CHR 0x0D, CHR 0x0A])"
    by (simp only: list.map concat.simps sample_csv_lines append_Nil2)
  show ?thesis
    using o m save_to_csv_rows [OF o, of "[bitcoin, tether]" empty_world]
    by (simp add: header_line c print_msg_def del: list.map)
qed

end
